theory Spec2Isabelle
  imports Complex_Main "HOL-Library.Sublist"
begin

section \<open>Interview practice bot: question rotation, scoring and session flow\<close>

text \<open>
  The program is one Python script, \<^verbatim>\<open>app.py\<close>. It has three helper functions
  (\<^verbatim>\<open>generate_question\<close>, \<^verbatim>\<open>evaluate_answer\<close>, \<^verbatim>\<open>extract_score\<close>) and a page body
  that the UI framework runs from top to bottom on every interaction, reading and
  writing the three keys \<^verbatim>\<open>question\<close>, \<^verbatim>\<open>asked\<close> and \<^verbatim>\<open>score\<close> of the session
  state.

  Conventions of the embedding.
  \<^item> A Python \<^verbatim>\<open>str\<close> is a \<^typ>\<open>string\<close>: the list of its code points, each one
    below 256. Code points from 256 on are outside the model.
  \<^item> A Python \<^verbatim>\<open>int\<close> is an \<^typ>\<open>int\<close>.
  \<^item> A Python \<^verbatim>\<open>float\<close> is the \<^typ>\<open>rat\<close> it denotes; the rounding of
    \<^verbatim>\<open>float(...)\<close> to a binary64 is not modelled.
  \<^item> The session state that the script reads implicitly is passed explicitly.
\<close>

subsection \<open>Settings\<close>

text \<open>The values of the select box and of the radio group of the sidebar.\<close>

datatype role = Software_Engineer | Product_Manager | Data_Analyst | Designer

datatype mode = Technical | Behavioral | System_Design

subsection \<open>\<^verbatim>\<open>generate_question\<close>\<close>

text \<open>
  The dictionary \<^verbatim>\<open>question_templates\<close>, looked up at \<^verbatim>\<open>mode\<close>. The f-strings are
  evaluated when the dictionary is built, so every entry is already rendered text.
  \<^verbatim>\<open>if domain\<close> is true exactly for a non-empty string.
\<close>

definition question_templates :: "string \<Rightarrow> mode \<Rightarrow> string list" where
  "question_templates domain m =
     (case m of
        Technical \<Rightarrow>
          [ if domain \<noteq> [] then ''What is your experience with '' @ domain @ ''?''
            else ''What programming languages do you know best?'',
            if domain \<noteq> [] then ''Describe a simple '' @ domain @ '' project you've worked on.''
            else ''What's your favorite tech tool and why?'',
            if domain \<noteq> [] then ''How would you explain '' @ domain @ '' to a beginner?''
            else ''What's your debugging process?'',
            if domain \<noteq> [] then ''What interests you about '' @ domain @ ''?''
            else ''How do you keep your technical skills updated?'',
            ''Tell me about your most recent technical project.'' ]
      | Behavioral \<Rightarrow>
          [ ''Tell me about yourself.'',
            ''What's your greatest professional strength?'',
            ''Why do you want this job?'',
            ''How do you handle stress?'',
            ''Describe your ideal work environment.'' ]
      | System_Design \<Rightarrow>
          [ ''How would you design a simple URL shortener?'',
            ''Explain how you would build a basic chat application.'',
            ''How would you design a simple file storage system?'',
            ''Describe a basic e-commerce checkout flow.'',
            ''How would you approach designing a simple API?'' ])"

text \<open>
  The selection step: \<^verbatim>\<open>question_index = asked % len(question_templates[mode])\<close>
  and \<^verbatim>\<open>question_templates[mode][question_index]\<close>. Python's \<^verbatim>\<open>%\<close> with a positive
  right operand is \<^term>\<open>(mod)\<close> on \<^typ>\<open>int\<close>; the index read is in range
  (lemma \<open>question_index_in_range\<close> below), so the list access never raises.
\<close>

definition question_index :: "string \<Rightarrow> mode \<Rightarrow> int \<Rightarrow> int" where
  "question_index domain m asked = asked mod int (length (question_templates domain m))"

definition selected_template :: "string \<Rightarrow> mode \<Rightarrow> int \<Rightarrow> string" where
  "selected_template domain m asked =
     question_templates domain m ! nat (question_index domain m asked)"

text \<open>The text appended by \<^verbatim>\<open>question += f" (Related to {domain})"\<close>.\<close>

definition related_suffix :: "string \<Rightarrow> string" where
  "related_suffix domain = '' (Related to '' @ domain @ '')''"

text \<open>
  \<^verbatim>\<open>generate_question(role, domain, mode)\<close>; the fourth argument is
  \<^verbatim>\<open>st.session_state.asked\<close>. \<^verbatim>\<open>"domain" not in question\<close> is the substring test,
  \<^term>\<open>sublist\<close> on lists of characters. The argument \<^verbatim>\<open>role\<close> is not used by the
  source either.
\<close>

definition generate_question :: "role \<Rightarrow> string \<Rightarrow> mode \<Rightarrow> int \<Rightarrow> string" where
  "generate_question r domain m asked =
     (let question = selected_template domain m asked
      in if domain \<noteq> [] \<and> \<not> sublist ''domain'' question
         then question @ related_suffix domain
         else question)"

subsection \<open>\<^verbatim>\<open>evaluate_answer\<close>\<close>

text \<open>
  The prompt built by the f-string of \<^verbatim>\<open>evaluate_answer\<close>; the continuation lines of
  the triple-quoted literal keep their eight leading blanks.
\<close>

definition build_prompt :: "string \<Rightarrow> string \<Rightarrow> string" where
  "build_prompt question_text user_answer_text =
     ''Briefly evaluate this interview answer. Keep it short and simple.\<newline>''
     @ ''        Question: '' @ question_text @ ''\<newline>''
     @ ''        Answer: '' @ user_answer_text @ ''\<newline>''
     @ ''        \<newline>''
     @ ''        Give a score out of 10 and 2-3 sentences of feedback. Format as:\<newline>''
     @ ''        Score: X/10\<newline>''
     @ ''        [Your brief feedback here]''"

text \<open>The string returned by the \<^verbatim>\<open>except\<close> branch.\<close>

definition fallback_feedback :: string where
  "fallback_feedback =
     ''Score: 7/10\<newline>Good answer! Consider adding a bit more detail about your specific experiences.''"

text \<open>
  The body of the \<^verbatim>\<open>try\<close> (building the model object, \<^verbatim>\<open>generate_content\<close> and
  reading \<^verbatim>\<open>response.text\<close>) is the external collaborator: a parameter \<open>llm\<close> that
  maps the prompt to \<^term>\<open>Inr\<close> of the response text, or to \<^term>\<open>Inl\<close> of the
  \<^verbatim>\<open>Exception\<close> raised anywhere in it (with its message). \<^verbatim>\<open>except Exception\<close>
  handles every such value. (Signals that are not an \<^verbatim>\<open>Exception\<close>, such as a keyboard interrupt of the
  server process, are not failures of the call and are outside the model.)
\<close>

datatype py_exception = Exception string

type_synonym llm = "string \<Rightarrow> py_exception + string"

definition evaluate_answer :: "llm \<Rightarrow> string \<Rightarrow> string \<Rightarrow> mode \<Rightarrow> string" where
  "evaluate_answer llm user_answer_text question_text m =
     (case llm (build_prompt question_text user_answer_text) of
        Inr response_text \<Rightarrow> response_text
      | Inl e \<Rightarrow> fallback_feedback)"

subsection \<open>Regular expressions, as far as \<^verbatim>\<open>extract_score\<close> uses them\<close>

text \<open>
  Character classes of Python's \<^verbatim>\<open>re\<close> on \<^verbatim>\<open>str\<close>, restricted to code points below
  256: \<^verbatim>\<open>\s\<close> is \<^verbatim>\<open>str.isspace\<close> on one character (tab to carriage return, the
  separators 28 to 31, blank, next-line 133 and no-break space 160); \<^verbatim>\<open>\d\<close> is a
  decimal digit, of which this range only has \<^verbatim>\<open>0\<close> to \<^verbatim>\<open>9\<close>.
\<close>

definition is_space :: "char \<Rightarrow> bool" where
  "is_space c \<longleftrightarrow> (of_char c :: nat) \<in> {9, 10, 11, 12, 13, 28, 29, 30, 31, 32, 133, 160}"

definition is_digit :: "char \<Rightarrow> bool" where
  "is_digit c \<longleftrightarrow> 48 \<le> (of_char c :: nat) \<and> (of_char c :: nat) \<le> 57"

text \<open>
  Under \<^verbatim>\<open>re.IGNORECASE\<close> a literal of the pattern matches a character of the text
  when both have the same lower-case form. All literals of the pattern are ASCII, and
  below 256 only the ASCII capitals have an ASCII lower-case form, so lowering the
  ASCII capitals is enough.
\<close>

definition ascii_lower :: "char \<Rightarrow> char" where
  "ascii_lower c =
     (if 65 \<le> (of_char c :: nat) \<and> (of_char c :: nat) \<le> 90
      then char_of ((of_char c :: nat) + 32) else c)"

datatype atom = Lit char | Digit | Space

fun atom_match :: "atom \<Rightarrow> char \<Rightarrow> bool" where
  "atom_match (Lit p) c = (ascii_lower c = ascii_lower p)"
| "atom_match Digit c = is_digit c"
| "atom_match Space c = is_space c"

text \<open>
  The pattern language: one character, a greedy star over one character (every star
  and plus of the pattern is of this kind), sequence, alternation, the greedy
  option \<^verbatim>\<open>?\<close> and the empty pattern.
\<close>

datatype regex =
    Eps
  | Atom atom
  | Star atom
  | Seq regex regex
  | Alt regex regex
  | Opt regex

text \<open>
  The backtracking matcher of \<^verbatim>\<open>re\<close>: \<open>rmatch r s k\<close> matches \<open>r\<close> at the front of
  \<open>s\<close> and hands the rest of the text to the continuation \<open>k\<close>; when \<open>k\<close> fails, the
  next choice is tried, in the priority order of \<^verbatim>\<open>re\<close> (a star takes as many
  characters as it can first, an alternation its left branch first, an option its
  body first).
\<close>

fun rmatch :: "regex \<Rightarrow> string \<Rightarrow> (string \<Rightarrow> 'a option) \<Rightarrow> 'a option" where
  "rmatch Eps s k = k s"
| "rmatch (Atom a) [] k = None"
| "rmatch (Atom a) (c # cs) k = (if atom_match a c then k cs else None)"
| "rmatch (Star a) [] k = k []"
| "rmatch (Star a) (c # cs) k =
     (if atom_match a c
      then (case rmatch (Star a) cs k of Some x \<Rightarrow> Some x | None \<Rightarrow> k (c # cs))
      else k (c # cs))"
| "rmatch (Seq r1 r2) s k = rmatch r1 s (\<lambda>t. rmatch r2 t k)"
| "rmatch (Alt r1 r2) s k =
     (case rmatch r1 s k of Some x \<Rightarrow> Some x | None \<Rightarrow> rmatch r2 s k)"
| "rmatch (Opt r) s k =
     (case rmatch r s k of Some x \<Rightarrow> Some x | None \<Rightarrow> k s)"

text \<open>A run of literal characters, and \<^verbatim>\<open>a+\<close> as \<^verbatim>\<open>aa*\<close>.\<close>

fun lits :: "string \<Rightarrow> regex" where
  "lits [] = Eps"
| "lits (c # cs) = Seq (Atom (Lit c)) (lits cs)"

definition Plus :: "atom \<Rightarrow> regex" where
  "Plus a = Seq (Atom a) (Star a)"

subsection \<open>\<^verbatim>\<open>extract_score\<close>\<close>

text \<open>
  The pattern
  \<^verbatim>\<open>Score:\s*(\d+(?:\.\d+)?)\s*(?:\/|\s*out\s*of\s*)\s*10\<close>
  in three parts: what stands before the capturing group, the group, and what
  stands after it.
\<close>

definition before_group :: regex where
  "before_group = Seq (lits ''Score:'') (Star Space)"

definition group1 :: regex where
  "group1 = Seq (Plus Digit) (Opt (Seq (Atom (Lit (CHR ''.''))) (Plus Digit)))"

definition after_group :: regex where
  "after_group =
     Seq (Star Space)
       (Seq (Alt (Atom (Lit (CHR ''/'')))
                 (Seq (Star Space) (Seq (lits ''out'') (Seq (Star Space) (Seq (lits ''of'') (Star Space))))))
         (Seq (Star Space) (lits ''10'')))"

text \<open>
  A match of the whole pattern that starts at the front of \<open>s\<close>; the result is
  \<^verbatim>\<open>match.group(1)\<close>, the piece of text the group consumed.
\<close>

definition match_here :: "string \<Rightarrow> string option" where
  "match_here s =
     rmatch before_group s (\<lambda>s1.
       rmatch group1 s1 (\<lambda>s2.
         rmatch after_group s2 (\<lambda>s3. Some (take (length s1 - length s2) s1))))"

text \<open>
  \<^verbatim>\<open>re.search\<close> tries the start positions from left to right, the end of the text
  included, and stops at the first one with a match.
\<close>

fun re_search :: "string \<Rightarrow> string option" where
  "re_search [] = match_here []"
| "re_search (c # cs) =
     (case match_here (c # cs) of Some g \<Rightarrow> Some g | None \<Rightarrow> re_search cs)"

text \<open>
  \<^verbatim>\<open>float\<close> on the text of the group, which always has the form \<^verbatim>\<open>digits\<close> or
  \<^verbatim>\<open>digits.digits\<close> (lemma \<open>group1_is_number\<close> below), so that the conversion never
  raises: the value of the decimal numeral.
\<close>

definition digit_val :: "char \<Rightarrow> int" where
  "digit_val c = int (of_char c) - 48"

definition digits_value :: "string \<Rightarrow> int" where
  "digits_value ds = foldl (\<lambda>a c. 10 * a + digit_val c) 0 ds"

definition py_float :: "string \<Rightarrow> rat" where
  "py_float t =
     (let ip = takeWhile (\<lambda>c. c \<noteq> CHR ''.'') t;
          fp = drop 1 (dropWhile (\<lambda>c. c \<noteq> CHR ''.'') t)
      in of_int (digits_value ip) + of_int (digits_value fp) / 10 ^ length fp)"

definition default_score :: rat where
  "default_score = 7"

definition extract_score :: "string \<Rightarrow> rat" where
  "extract_score feedback_text =
     (case re_search feedback_text of
        Some g \<Rightarrow> py_float g
      | None \<Rightarrow> default_score)"

subsection \<open>The texts a pattern matches\<close>

text \<open>
  The set of texts that a pattern matches as a whole, without any order among the
  choices. The matcher is related to it in the section on the score extractor.
\<close>

fun lang :: "regex \<Rightarrow> string set" where
  "lang Eps = {[]}"
| "lang (Atom a) = {[c] |c. atom_match a c}"
| "lang (Star a) = {cs. list_all (atom_match a) cs}"
| "lang (Seq r1 r2) = {u @ v |u v. u \<in> lang r1 \<and> v \<in> lang r2}"
| "lang (Alt r1 r2) = lang r1 \<union> lang r2"
| "lang (Opt r) = insert [] (lang r)"

subsection \<open>The session state and the inputs of one interaction\<close>

text \<open>One entry of the list \<^verbatim>\<open>st.session_state.score\<close>: the dictionary appended on submit.\<close>

record result =
  res_question :: string
  res_answer :: string
  res_feedback :: string
  res_score :: rat

text \<open>The three keys of \<^verbatim>\<open>st.session_state\<close>.\<close>

record session =
  question :: "string option"
  asked :: int
  score :: "result list"

text \<open>
  The values written by the block \<^verbatim>\<open>Initialize session states\<close>. After
  \<^verbatim>\<open>st.session_state.clear()\<close> the three keys are missing and the rerun that always
  follows writes these values again, so a cleared state is modelled by them.
\<close>

definition init_session :: session where
  "init_session = \<lparr>question = None, asked = 0, score = []\<rparr>"

text \<open>
  The widget values the script reads in one run. The slider gives
  \<^verbatim>\<open>num_questions\<close> between 1 and 5.
\<close>

record inputs =
  role :: role
  domain :: string
  mode :: mode
  num_questions :: int
  user_answer :: string

definition valid_inputs :: "inputs \<Rightarrow> bool" where
  "valid_inputs w \<longleftrightarrow> 1 \<le> num_questions w \<and> num_questions w \<le> 5"

text \<open>The button whose click caused the run, if any: at most one per run.\<close>

datatype button = No_Button | Start_Practice | Submit | Skip | Reset | Practice_Again

text \<open>Truth value of \<^verbatim>\<open>st.session_state.question\<close>: neither \<^verbatim>\<open>None\<close> nor empty.\<close>

definition truthy :: "string option \<Rightarrow> bool" where
  "truthy q = (case q of None \<Rightarrow> False | Some t \<Rightarrow> t \<noteq> [])"

text \<open>\<^verbatim>\<open>str.strip()\<close>: whitespace removed at both ends.\<close>

definition strip :: "string \<Rightarrow> string" where
  "strip s = rev (dropWhile is_space (rev (dropWhile is_space s)))"

text \<open>The condition of the block \<^verbatim>\<open>Show results\<close>.\<close>

definition shows_results :: "inputs \<Rightarrow> session \<Rightarrow> bool" where
  "shows_results w s \<longleftrightarrow> num_questions w \<le> asked s \<and> score s \<noteq> []"

subsection \<open>The page body\<close>

text \<open>
  \<^verbatim>\<open>Next question or finish\<close>, the branch shared by the two handlers; both arms end
  in \<^verbatim>\<open>st.rerun()\<close>, which is the second component of the result.
\<close>

definition next_or_finish :: "inputs \<Rightarrow> session \<Rightarrow> session \<times> bool" where
  "next_or_finish w s =
     (if asked s < num_questions w
      then (s\<lparr>question := Some (generate_question (role w) (domain w) (mode w) (asked s))\<rparr>, True)
      else (s\<lparr>question := None\<rparr>, True))"

text \<open>
  The handler of \<^verbatim>\<open>Submit\<close>, for the pending question \<open>q\<close>. With a blank answer it
  only shows a warning.
\<close>

definition on_submit :: "llm \<Rightarrow> inputs \<Rightarrow> string \<Rightarrow> session \<Rightarrow> session \<times> bool" where
  "on_submit llm w q s =
     (if strip (user_answer w) = [] then (s, False)
      else
        let feedback_text = evaluate_answer llm (user_answer w) q (mode w);
            score_value = extract_score feedback_text;
            s1 = s\<lparr>score := score s @
                   [\<lparr>res_question = q, res_answer = user_answer w,
                     res_feedback = feedback_text, res_score = score_value\<rparr>]\<rparr>;
            s2 = s1\<lparr>asked := asked s1 + 1\<rparr>
        in next_or_finish w s2)"

text \<open>The handler of \<^verbatim>\<open>Skip\<close>.\<close>

definition on_skip :: "inputs \<Rightarrow> session \<Rightarrow> session \<times> bool" where
  "on_skip w s = next_or_finish w (s\<lparr>asked := asked s + 1\<rparr>)"

text \<open>
  The block under \<^verbatim>\<open>if st.button("Start Practice", ...) or st.session_state.question\<close>.
  It first starts a run when no question is stored. Afterwards a question is stored
  (lemma \<open>started_question\<close> below), so the branch \<^term>\<open>None\<close> of the case
  distinction is never taken.
\<close>

definition start_run :: "inputs \<Rightarrow> session \<Rightarrow> session" where
  "start_run w s =
     (if question s = None
      then (let s1 = s\<lparr>asked := 0\<rparr>;
                s2 = s1\<lparr>score := []\<rparr>
            in s2\<lparr>question := Some (generate_question (role w) (domain w) (mode w) (asked s2))\<rparr>)
      else s)"

definition main_block :: "llm \<Rightarrow> inputs \<Rightarrow> button \<Rightarrow> session \<Rightarrow> session \<times> bool" where
  "main_block llm w b s =
     (let s0 = start_run w s
      in case question s0 of
           None \<Rightarrow> (s0, False)
         | Some q \<Rightarrow>
             if b = Submit then on_submit llm w q s0
             else if b = Skip then on_skip w s0
             else (s0, False))"

text \<open>
  One run of the script from top to bottom, for the button \<open>b\<close> that was clicked. The
  second component tells whether the run ended in \<^verbatim>\<open>st.rerun()\<close>, which stops it
  at once.
\<close>

definition pass :: "llm \<Rightarrow> inputs \<Rightarrow> button \<Rightarrow> session \<Rightarrow> session \<times> bool" where
  "pass llm w b s =
     (if b = Reset then (init_session, True)
      else
        let (s1, rerun) =
              (if b = Start_Practice \<or> truthy (question s) then main_block llm w b s
               else (s, False))
        in if rerun then (s1, True)
           else if shows_results w s1 \<and> b = Practice_Again then (init_session, True)
           else (s1, False))"

text \<open>
  One interaction of the user: the run caused by the click and, when it asked for
  one, the rerun, in which no button is down.
\<close>

definition interaction :: "llm \<Rightarrow> inputs \<Rightarrow> button \<Rightarrow> session \<Rightarrow> session" where
  "interaction llm w b s =
     (let (s1, rerun) = pass llm w b s
      in if rerun then fst (pass llm w No_Button s1) else s1)"

text \<open>A sequence of interactions, each with its own inputs and its own model behaviour.\<close>

fun interactions :: "(llm \<times> inputs \<times> button) list \<Rightarrow> session \<Rightarrow> session" where
  "interactions [] s = s"
| "interactions ((llm, w, b) # evs) s = interactions evs (interaction llm w b s)"

text \<open>
  The session states that can arise, from the first load of the page on, and those
  that can arise while the slider stays at \<open>n\<close>.
\<close>

inductive reachable :: "session \<Rightarrow> bool" where
  reachable_init: "reachable init_session"
| reachable_step: "reachable s \<Longrightarrow> valid_inputs w \<Longrightarrow> reachable (interaction llm w b s)"

inductive reachable_fixed :: "int \<Rightarrow> session \<Rightarrow> bool" for n :: int where
  fixed_init: "reachable_fixed n init_session"
| fixed_step: "reachable_fixed n s \<Longrightarrow> num_questions w = n \<Longrightarrow>
     reachable_fixed n (interaction llm w b s)"

subsection \<open>Notions of the specification\<close>

text \<open>
  A slot of the Technical list is domain-conditional when its text depends on the
  domain.
\<close>

definition domain_conditional :: "nat \<Rightarrow> bool" where
  "domain_conditional i \<longleftrightarrow>
     (\<exists>d d'. question_templates d Technical ! i \<noteq> question_templates d' Technical ! i)"



definition digits :: "string \<Rightarrow> bool" where
  "digits ds \<longleftrightarrow> ds \<noteq> [] \<and> list_all is_digit ds"

definition number :: "string \<Rightarrow> bool" where
  "number N \<longleftrightarrow> digits N \<or> (\<exists>ip fp. N = ip @ ''.'' @ fp \<and> digits ip \<and> digits fp)"




text \<open>
  The state \<^verbatim>\<open>COMPLETE\<close> in the words of the specification: as many questions
  presented as the slider says, results not empty, no question stored.
\<close>

definition complete :: "inputs \<Rightarrow> session \<Rightarrow> bool" where
  "complete w s \<longleftrightarrow> asked s = num_questions w \<and> score s \<noteq> [] \<and> question s = None"

text \<open>
  The interactions that answer the pending question: a click on \<^verbatim>\<open>Skip\<close>, or a click
  on \<^verbatim>\<open>Submit\<close> with an answer that is not blank. Among them, the submits.
\<close>

definition is_submit :: "llm \<times> inputs \<times> button \<Rightarrow> bool" where
  "is_submit ev \<longleftrightarrow> snd (snd ev) = Submit"

definition answering :: "llm \<times> inputs \<times> button \<Rightarrow> bool" where
  "answering ev \<longleftrightarrow>
     (snd (snd ev) = Skip \<or> (snd (snd ev) = Submit \<and> strip (user_answer (fst (snd ev))) \<noteq> []))"

text \<open>The invariant of a run in which the slider stays at \<open>n\<close>.\<close>

definition run_invariant :: "int \<Rightarrow> session \<Rightarrow> bool" where
  "run_invariant n s \<longleftrightarrow>
     asked s \<le> n \<and> int (length (score s)) \<le> asked s \<and> (n \<le> asked s \<longrightarrow> question s = None)"

subsection \<open>A sample session\<close>

text \<open>
  The example of the specification: mode Behavioral, no domain, the answer
  \<^verbatim>\<open>I am diligent.\<close>, with \<open>n\<close> questions; a model that answers every prompt with the
  same two lines, and one whose call always fails.
\<close>

definition sample_inputs :: "int \<Rightarrow> inputs" where
  "sample_inputs n =
     \<lparr>role = Software_Engineer, domain = [], mode = Behavioral, num_questions = n,
      user_answer = ''I am diligent.''\<rparr>"

definition sample_llm :: llm where
  "sample_llm = (\<lambda>p. Inr ''Score: 9/10\<newline>Clear and concise.'')"

definition failing_llm :: llm where
  "failing_llm = (\<lambda>p. Inl (Exception ''quota exceeded''))"

definition sample_result :: result where
  "sample_result =
     \<lparr>res_question = ''Tell me about yourself.'', res_answer = ''I am diligent.'',
      res_feedback = ''Score: 9/10\<newline>Clear and concise.'', res_score = 9\<rparr>"

definition sample_started :: session where
  "sample_started = \<lparr>question = Some ''Tell me about yourself.'', asked = 0, score = []\<rparr>"

definition sample_second :: session where
  "sample_second =
     \<lparr>question = Some ''What's your greatest professional strength?'', asked = 1,
      score = [sample_result]\<rparr>"

definition sample_third :: session where
  "sample_third =
     \<lparr>question = Some ''Why do you want this job?'', asked = 2, score = [sample_result]\<rparr>"

text \<open>
  Two runs of the sample session: the example of the specification with two
  questions (a submit, then a skip), and a run with three questions in which the
  slider is moved to 1 after a submit and a skip.
\<close>

definition sample_run :: "(llm \<times> inputs \<times> button) list" where
  "sample_run = [(sample_llm, sample_inputs 2, Submit), (sample_llm, sample_inputs 2, Skip)]"

definition slider_moved :: "(llm \<times> inputs \<times> button) list" where
  "slider_moved =
     [(sample_llm, sample_inputs 3, Start_Practice), (sample_llm, sample_inputs 3, Submit),
      (sample_llm, sample_inputs 3, Skip), (sample_llm, sample_inputs 1, No_Button)]"

definition all_skipped :: "(llm \<times> inputs \<times> button) list" where
  "all_skipped = [(sample_llm, sample_inputs 1, Skip)]"

section \<open>Properties of the question generator\<close>

lemma length_question_templates: "length (question_templates d m) = 5"
  by (cases m) (simp_all add: question_templates_def)

lemma question_index_in_range:
  "0 \<le> question_index d m k \<and> nat (question_index d m k) < length (question_templates d m)"
  by (simp add: question_index_def length_question_templates)

lemma question_index_mod5: "question_index d m k = k mod 5"
  by (simp add: question_index_def length_question_templates)

lemma generate_question_nonempty: "generate_question r d m k \<noteq> []"
proof -
  have "question_templates d m ! i \<noteq> []" if "i < 5" for i
  proof -
    from that have "i = 0 \<or> i = 1 \<or> i = 2 \<or> i = 3 \<or> i = 4" by arith
    then show ?thesis
      by (cases m) (auto simp: question_templates_def)
  qed
  moreover have "nat (question_index d m k) < 5"
    by (simp add: question_index_mod5)
  ultimately have "selected_template d m k \<noteq> []"
    by (simp add: selected_template_def)
  then show ?thesis
    by (simp add: generate_question_def Let_def)
qed

text \<open>
  Claim C7. The generated question is a function of role, domain, mode and the count
  of questions asked. It is built from the template at index \<open>k mod 5\<close> of the list
  of the mode, an index inside the list: it is that template, followed by the
  domain suffix under the rule of the source. So the question for \<open>k + 5\<close> is the
  question for \<open>k\<close>.
\<close>

theorem generate_question_period5:
  "generate_question r d m (k + 5) = generate_question r d m k \<and>
   nat (k mod 5) < length (question_templates d m) \<and>
   selected_template d m k = question_templates d m ! nat (k mod 5) \<and>
   generate_question r d m k =
     (if d \<noteq> [] \<and> \<not> sublist ''domain'' (question_templates d m ! nat (k mod 5))
      then question_templates d m ! nat (k mod 5) @ '' (Related to '' @ d @ '')''
      else question_templates d m ! nat (k mod 5)) \<and>
   prefix (question_templates d m ! nat (k mod 5)) (generate_question r d m k)"
proof -
  have "nat (k mod 5) < 5" by simp
  then show ?thesis
    by (simp add: generate_question_def selected_template_def question_index_mod5
        length_question_templates related_suffix_def Let_def)
qed

lemma domain_conditional_iff:
  assumes "i < 5"
  shows "domain_conditional i \<longleftrightarrow> i < 4"
proof -
  from assms have "i = 0 \<or> i = 1 \<or> i = 2 \<or> i = 3 \<or> i = 4" by arith
  moreover have "domain_conditional i" if "i = 0 \<or> i = 1 \<or> i = 2 \<or> i = 3"
  proof -
    have "question_templates ''x'' Technical ! i \<noteq> question_templates [] Technical ! i"
      using that by (auto simp: question_templates_def)
    then show ?thesis unfolding domain_conditional_def by blast
  qed
  moreover have "\<not> domain_conditional 4"
    by (simp add: domain_conditional_def question_templates_def)
  ultimately show ?thesis by auto
qed

lemma conditional_slots: "{i. i < 5 \<and> domain_conditional i} = {0, 1, 2, 3}"
proof -
  have "{i. i < 5 \<and> domain_conditional i} = {i. i < 4}"
    using domain_conditional_iff by auto
  also have "\<dots> = {0, 1, 2, 3}" by auto
  finally show ?thesis .
qed

text \<open>
  Claim C8, as stated: exactly three of the five Technical templates are
  domain-conditional. The source has four of them, the slots 0 to 3, so the number
  of domain-conditional slots is not three.
\<close>

theorem three_conditional_counterexample:
  "card {i. i < 5 \<and> domain_conditional i} \<noteq> 3"
  by (simp add: conditional_slots)

text \<open>
  Claim C8, amended. In Technical mode exactly four of the five templates, the slots
  0 to 3, are domain-conditional: each has the domain interpolated when the domain
  is not empty, and a generic phrasing when it is empty. The last slot is the same
  text for every domain.
\<close>

theorem technical_four_conditional:
  "length (question_templates d Technical) = 5 \<and>
   {i. i < 5 \<and> domain_conditional i} = {0, 1, 2, 3} \<and>
   (d \<noteq> [] \<longrightarrow>
      question_templates d Technical ! 0 = ''What is your experience with '' @ d @ ''?'' \<and>
      question_templates d Technical ! 1 = ''Describe a simple '' @ d @ '' project you've worked on.'' \<and>
      question_templates d Technical ! 2 = ''How would you explain '' @ d @ '' to a beginner?'' \<and>
      question_templates d Technical ! 3 = ''What interests you about '' @ d @ ''?'') \<and>
   question_templates [] Technical ! 0 = ''What programming languages do you know best?'' \<and>
   question_templates [] Technical ! 1 = ''What's your favorite tech tool and why?'' \<and>
   question_templates [] Technical ! 2 = ''What's your debugging process?'' \<and>
   question_templates [] Technical ! 3 = ''How do you keep your technical skills updated?'' \<and>
   question_templates d Technical ! 4 = ''Tell me about your most recent technical project.''"
  using conditional_slots by (simp add: question_templates_def)

theorem technical_four_conditional_witness:
  "''Python'' \<noteq> [] \<and>
   question_templates ''Python'' Technical =
     [''What is your experience with Python?'',
      ''Describe a simple Python project you've worked on.'',
      ''How would you explain Python to a beginner?'',
      ''What interests you about Python?'',
      ''Tell me about your most recent technical project.'']"
  using technical_four_conditional [of "''Python''"]
  by (simp add: question_templates_def)

text \<open>
  Claim C9. The generated question is the selected template followed by
  \<^verbatim>\<open> (Related to <domain>)\<close> if and only if the domain is not empty and the text
  \<^verbatim>\<open>domain\<close> does not occur, letter for letter, in the selected template; in every
  other case it is the selected template itself.
\<close>

theorem suffix_rule:
  "generate_question r d m k =
     (if d \<noteq> [] \<and> \<not> sublist ''domain'' (selected_template d m k)
      then selected_template d m k @ '' (Related to '' @ d @ '')''
      else selected_template d m k) \<and>
   ((generate_question r d m k = selected_template d m k @ '' (Related to '' @ d @ '')'')
      \<longleftrightarrow> (d \<noteq> [] \<and> \<not> sublist ''domain'' (selected_template d m k)))"
  by (simp add: generate_question_def Let_def related_suffix_def)

text \<open>
  Two instances: an interpolated template gets the suffix as well, and a domain
  that contains the word \<^verbatim>\<open>domain\<close> keeps it away from an interpolated template.
\<close>

lemma generate_question_python:
  "generate_question Designer ''Python'' Technical 0 =
     ''What is your experience with Python? (Related to Python)''"
  by code_simp

lemma generate_question_domain_word:
  "generate_question Designer ''domain design'' Technical 0 =
     ''What is your experience with domain design?''"
  by code_simp

section \<open>Properties of the evaluator\<close>

text \<open>
  Claim C5. Whatever the answer, the question and the mode, when the model call
  fails the evaluator returns the fixed fallback text, which begins with
  \<^verbatim>\<open>Score: 7/10\<close>. The result of \<^const>\<open>evaluate_answer\<close> is a string in every case:
  no failure of the call reaches the caller.
\<close>

theorem evaluate_answer_fallback:
  assumes "llm (build_prompt q a) = Inl e"
  shows "evaluate_answer llm a q m = fallback_feedback \<and>
         prefix ''Score: 7/10'' fallback_feedback"
  using assms by (simp add: evaluate_answer_def fallback_feedback_def)

theorem evaluate_answer_fallback_witness:
  "failing_llm (build_prompt ''Tell me about yourself.'' ''I am diligent.'')
     = Inl (Exception ''quota exceeded'') \<and>
   evaluate_answer failing_llm ''I am diligent.'' ''Tell me about yourself.'' Behavioral
     = fallback_feedback \<and>
   prefix ''Score: 7/10'' fallback_feedback"
proof -
  have h: "failing_llm (build_prompt ''Tell me about yourself.'' ''I am diligent.'')
             = Inl (Exception ''quota exceeded'')"
    by (simp add: failing_llm_def)
  show ?thesis
    using h evaluate_answer_fallback [of failing_llm "''Tell me about yourself.''"
        "''I am diligent.''" "Exception ''quota exceeded''" Behavioral]
    by simp
qed

section \<open>Properties of the score extractor\<close>

subsection \<open>The matcher and the texts of a pattern\<close>

text \<open>
  A successful run of the matcher splits the text into a piece that the pattern
  matches and a rest that the continuation accepts; and whenever such a split
  exists, the matcher succeeds (with the first split in its priority order).
\<close>

lemma rmatch_sound:
  "rmatch r s k = Some x \<Longrightarrow> \<exists>u v. s = u @ v \<and> u \<in> lang r \<and> k v = Some x"
proof (induction r s k arbitrary: x rule: rmatch.induct)
  case (1 s k)
  then show ?case by simp
next
  case (2 a k)
  then show ?case by simp
next
  case (3 a c cs k)
  then have "atom_match a c" "k cs = Some x" by (auto split: if_splits)
  then have "c # cs = [c] @ cs \<and> [c] \<in> lang (Atom a) \<and> k cs = Some x" by simp
  then show ?case by blast
next
  case (4 a k)
  then show ?case by simp
next
  case (5 a c cs k)
  show ?case
  proof (cases "atom_match a c \<and> rmatch (Star a) cs k \<noteq> None")
    case True
    with "5.prems" have "rmatch (Star a) cs k = Some x" by auto
    with "5.IH" True obtain u v where "cs = u @ v" "u \<in> lang (Star a)" "k v = Some x"
      by blast
    with True have "c # cs = (c # u) @ v \<and> c # u \<in> lang (Star a) \<and> k v = Some x"
      by simp
    then show ?thesis by blast
  next
    case False
    with "5.prems" have "k (c # cs) = Some x" by (auto split: if_splits)
    then have "c # cs = [] @ (c # cs) \<and> [] \<in> lang (Star a) \<and> k (c # cs) = Some x" by simp
    then show ?thesis by blast
  qed
next
  case (6 r1 r2 s k)
  from "6.prems" have "rmatch r1 s (\<lambda>t. rmatch r2 t k) = Some x" by simp
  from "6.IH"(2) [OF this]
  obtain u1 v1 where 1: "s = u1 @ v1" "u1 \<in> lang r1" "rmatch r2 v1 k = Some x"
    by auto
  from "6.IH"(1) [OF 1(3)]
  obtain u2 v where 2: "v1 = u2 @ v" "u2 \<in> lang r2" "k v = Some x"
    by auto
  from 1 2 have "s = (u1 @ u2) @ v \<and> u1 @ u2 \<in> lang (Seq r1 r2) \<and> k v = Some x" by auto
  then show ?case by blast
next
  case (7 r1 r2 s k)
  show ?case
  proof (cases "rmatch r1 s k")
    case None
    with "7.prems" have "rmatch r2 s k = Some x" by simp
    with "7.IH"(2) None show ?thesis by fastforce
  next
    case (Some y)
    with "7.prems" have "rmatch r1 s k = Some x" by simp
    with "7.IH"(1) show ?thesis by fastforce
  qed
next
  case (8 r s k)
  show ?case
  proof (cases "rmatch r s k")
    case None
    with "8.prems" have "k s = Some x" by simp
    then have "s = [] @ s \<and> [] \<in> lang (Opt r) \<and> k s = Some x" by simp
    then show ?thesis by blast
  next
    case (Some y)
    with "8.prems" have "rmatch r s k = Some x" by simp
    with "8.IH" show ?thesis by fastforce
  qed
qed



subsection \<open>Characters and the three parts of the pattern\<close>

lemma of_char_ascii_lower:
  "(of_char (ascii_lower c) :: nat) =
     (if 65 \<le> (of_char c :: nat) \<and> (of_char c :: nat) \<le> 90 then of_char c + 32 else of_char c)"
  by (simp add: ascii_lower_def)


lemma lit_other:
  assumes "\<not> (65 \<le> (of_char p :: nat) \<and> (of_char p :: nat) \<le> 90)"
      and "\<not> (97 \<le> (of_char p :: nat) \<and> (of_char p :: nat) \<le> 122)"
  shows "ascii_lower c = ascii_lower p \<longleftrightarrow> c = p"
proof
  assume "ascii_lower c = ascii_lower p"
  then have "(of_char (ascii_lower c) :: nat) = of_char (ascii_lower p)" by simp
  then have "(of_char c :: nat) = of_char p"
    using assms unfolding of_char_ascii_lower by (simp split: if_splits)
  then show "c = p" by simp
next
  assume "c = p"
  then show "ascii_lower c = ascii_lower p" by simp
qed

lemma lit_signs:
  "ascii_lower c = ascii_lower (CHR ''.'') \<longleftrightarrow> c = CHR ''.''"
  "ascii_lower c = ascii_lower (CHR ''/'') \<longleftrightarrow> c = CHR ''/''"
  "ascii_lower c = ascii_lower (CHR ''1'') \<longleftrightarrow> c = CHR ''1''"
  "ascii_lower c = ascii_lower (CHR ''0'') \<longleftrightarrow> c = CHR ''0''"
  by (rule lit_other; simp)+



lemma digit_not_dot: "is_digit c \<Longrightarrow> c \<noteq> CHR ''.''"
  by (auto simp: is_digit_def)


lemma atom_match_classes: "atom_match Digit = is_digit" "atom_match Space = is_space"
  by (rule ext, simp)+

lemma lang_Atom_Seq:
  "u \<in> lang (Seq (Atom a) r) \<longleftrightarrow> (\<exists>x u'. u = x # u' \<and> atom_match a x \<and> u' \<in> lang r)"
proof
  assume "u \<in> lang (Seq (Atom a) r)"
  then obtain c v where "u = [c] @ v" "atom_match a c" "v \<in> lang r" by auto
  then show "\<exists>x u'. u = x # u' \<and> atom_match a x \<and> u' \<in> lang r" by simp
next
  assume "\<exists>x u'. u = x # u' \<and> atom_match a x \<and> u' \<in> lang r"
  then obtain x u' where "u = [x] @ u'" "[x] \<in> lang (Atom a)" "u' \<in> lang r" by auto
  then show "u \<in> lang (Seq (Atom a) r)" unfolding lang.simps(4) by blast
qed



lemma lang_Plus_Digit: "u \<in> lang (Plus Digit) \<longleftrightarrow> digits u"
  by (cases u) (simp_all add: Plus_def digits_def lang_Atom_Seq atom_match_classes del: lang.simps(4))


lemma lang_dot: "u \<in> lang (Atom (Lit (CHR ''.''))) \<longleftrightarrow> u = ''.''"
  by (auto simp: lit_signs)

lemma lang_group1: "N \<in> lang group1 \<longleftrightarrow> number N"
proof -
  have "N \<in> lang group1 \<longleftrightarrow>
     (\<exists>ip r. N = ip @ r \<and> digits ip \<and> (r = [] \<or> (\<exists>d fp. r = d @ fp \<and> d = ''.'' \<and> digits fp)))"
    unfolding group1_def lang.simps(4,6) by (simp only: lang_dot lang_Plus_Digit mem_Collect_eq insert_iff)
  also have "\<dots> \<longleftrightarrow> number N"
    unfolding number_def by auto
  finally show ?thesis .
qed










subsection \<open>A match at the front of a text\<close>

lemma match_here_sound:
  assumes "match_here t = Some g"
  shows "\<exists>u w post. t = u @ g @ w @ post \<and> u \<in> lang before_group \<and> g \<in> lang group1 \<and>
           w \<in> lang after_group"
proof -
  from assms obtain u s1 where 1: "t = u @ s1" "u \<in> lang before_group"
    and k1: "rmatch group1 s1 (\<lambda>s2.
         rmatch after_group s2 (\<lambda>s3. Some (take (length s1 - length s2) s1))) = Some g"
    unfolding match_here_def by (blast dest: rmatch_sound)
  from rmatch_sound [OF k1] obtain g' s2 where 2: "s1 = g' @ s2" "g' \<in> lang group1"
    and k2: "rmatch after_group s2 (\<lambda>s3. Some (take (length s1 - length s2) s1)) = Some g"
    by blast
  from rmatch_sound [OF k2] obtain w s3 where 3: "s2 = w @ s3" "w \<in> lang after_group"
    and k3: "Some (take (length s1 - length s2) s1) = Some g"
    by blast
  from k3 2(1) have "g = g'" by simp
  with 1 2 3 have "t = u @ g @ w @ s3 \<and> u \<in> lang before_group \<and> g \<in> lang group1 \<and>
           w \<in> lang after_group" by simp
  then show ?thesis by blast
qed







subsection \<open>The search\<close>


lemma re_search_Some:
  "re_search s = Some g \<Longrightarrow>
     \<exists>pre t. s = pre @ t \<and> match_here t = Some g \<and>
       (\<forall>pre' t'. s = pre' @ t' \<and> length pre' < length pre \<longrightarrow> match_here t' = None)"
proof (induction s)
  case Nil
  show ?case
    by (rule exI [where x = "[]"], rule exI [where x = "[]"]) (use Nil in simp)
next
  case (Cons c cs)
  show ?case
  proof (cases "match_here (c # cs)")
    case (Some g')
    show ?thesis
      by (rule exI [where x = "[]"], rule exI [where x = "c # cs"]) (use Some Cons.prems in simp)
  next
    case None
    with Cons.prems have "re_search cs = Some g" by simp
    from Cons.IH [OF this] obtain pre t where IH: "cs = pre @ t" "match_here t = Some g"
      and IH3: "\<forall>pre' t'. cs = pre' @ t' \<and> length pre' < length pre \<longrightarrow> match_here t' = None"
      by (elim exE conjE)
    have "match_here t' = None" if "c # cs = pre' @ t'" "length pre' < length (c # pre)" for pre' t'
    proof (cases pre')
      case Nil
      with that(1) None show ?thesis by simp
    next
      case (Cons x p)
      with that have "cs = p @ t' \<and> length p < length pre" by simp
      with IH3 show ?thesis by (elim allE impE) assumption
    qed
    then have "\<forall>pre' t'. c # cs = pre' @ t' \<and> length pre' < length (c # pre) \<longrightarrow>
        match_here t' = None"
      by (intro allI impI) (elim conjE)
    with IH show ?thesis
      by (intro exI [where x = "c # pre"] exI [where x = t]) simp
  qed
qed







lemma group1_is_number: "re_search s = Some g \<Longrightarrow> number g"
proof -
  assume "re_search s = Some g"
  from re_search_Some [OF this] obtain t where "match_here t = Some g" by blast
  from match_here_sound [OF this] have "g \<in> lang group1" by blast
  then show "number g" by (simp only: lang_group1)
qed

subsection \<open>The value of a number and sample texts\<close>




lemma digits_no_dot: "digits ds \<Longrightarrow> \<forall>c\<in>set ds. c \<noteq> CHR ''.''"
  by (auto simp: digits_def list_all_iff dest: digit_not_dot)

lemma py_float_digits:
  assumes "digits ds"
  shows "py_float ds = of_int (digits_value ds)"
proof -
  from digits_no_dot [OF assms]
  have 1: "takeWhile (\<lambda>c. c \<noteq> CHR ''.'') ds = ds" and 2: "dropWhile (\<lambda>c. c \<noteq> CHR ''.'') ds = []"
    by simp_all
  show ?thesis unfolding py_float_def Let_def 1 2 by (simp add: digits_value_def)
qed

lemma py_float_fraction:
  assumes "digits ip" "digits fp"
  shows "py_float (ip @ ''.'' @ fp) =
           of_int (digits_value ip) + of_int (digits_value fp) / 10 ^ length fp"
proof -
  from digits_no_dot [OF assms(1)]
  have 1: "takeWhile (\<lambda>c. c \<noteq> CHR ''.'') (ip @ ''.'' @ fp) = ip"
    and 2: "dropWhile (\<lambda>c. c \<noteq> CHR ''.'') (ip @ ''.'' @ fp) = ''.'' @ fp"
    by (simp_all add: takeWhile_append2 dropWhile_append2)
  show ?thesis unfolding py_float_def Let_def 1 2 by simp
qed





subsection \<open>The score of a feedback text\<close>




section \<open>Properties of the session controller\<close>

subsection \<open>One interaction\<close>

lemma strip_empty_iff: "strip a = [] \<longleftrightarrow> (\<forall>c\<in>set a. is_space c)"
proof
  assume "strip a = []"
  then have all: "\<forall>c\<in>set (dropWhile is_space a). is_space c"
    by (simp add: strip_def)
  have "dropWhile is_space a = []"
  proof (rule ccontr)
    assume ne: "dropWhile is_space a \<noteq> []"
    then have "\<not> is_space (hd (dropWhile is_space a))" by (rule hd_dropWhile)
    moreover from ne have "hd (dropWhile is_space a) \<in> set (dropWhile is_space a)" by simp
    ultimately show False using all by blast
  qed
  then show "\<forall>c\<in>set a. is_space c" by simp
next
  assume "\<forall>c\<in>set a. is_space c"
  then have d: "dropWhile is_space a = []" by simp
  show "strip a = []" unfolding strip_def d by simp
qed

lemma started_question: "question (start_run w s) \<noteq> None"
  by (simp add: start_run_def Let_def)

text \<open>A run in which no button is down changes nothing and asks for no rerun.\<close>

lemma pass_No_Button: "pass llm w No_Button s = (s, False)"
  by (auto simp: pass_def main_block_def start_run_def truthy_def split: option.splits)

lemma interaction_pass: "interaction llm w b s = fst (pass llm w b s)"
  by (simp add: interaction_def pass_No_Button split: prod.splits)

lemma interaction_submit_blank:
  "strip (user_answer w) = [] \<Longrightarrow> interaction llm w Submit s = s"
  by (auto simp: interaction_pass pass_def main_block_def start_run_def on_submit_def truthy_def
      split: option.splits)

lemma interaction_submit:
  assumes "question s = Some q" "q \<noteq> []" "strip (user_answer w) \<noteq> []"
  shows "interaction llm w Submit s =
           fst (next_or_finish w
             (s\<lparr>score := score s @
                   [\<lparr>res_question = q, res_answer = user_answer w,
                     res_feedback = evaluate_answer llm (user_answer w) q (mode w),
                     res_score = extract_score (evaluate_answer llm (user_answer w) q (mode w))\<rparr>],
                asked := asked s + 1\<rparr>))"
  using assms
  by (simp add: interaction_pass pass_def main_block_def start_run_def on_submit_def truthy_def
      Let_def next_or_finish_def)

lemma interaction_skip:
  assumes "question s = Some q" "q \<noteq> []"
  shows "interaction llm w Skip s = fst (next_or_finish w (s\<lparr>asked := asked s + 1\<rparr>))"
  using assms
  by (simp add: interaction_pass pass_def main_block_def start_run_def on_skip_def truthy_def
      Let_def next_or_finish_def)

lemma interaction_start:
  assumes "question s = None"
  shows "interaction llm w Start_Practice s =
           \<lparr>question = Some (generate_question (role w) (domain w) (mode w) 0), asked = 0, score = []\<rparr>"
  using assms
  by (simp add: interaction_pass pass_def main_block_def start_run_def Let_def shows_results_def)

subsection \<open>The sample session, step by step\<close>

lemma strip_sample: "strip ''I am diligent.'' = ''I am diligent.''"
  by (simp add: strip_def is_space_def)

lemma sample_answer_not_blank: "strip (user_answer (sample_inputs n)) \<noteq> []"
  by (simp add: sample_inputs_def strip_sample)

lemma sample_questions:
  "generate_question Software_Engineer [] Behavioral 0 = ''Tell me about yourself.''"
  "generate_question Software_Engineer [] Behavioral 1 = ''What's your greatest professional strength?''"
  "generate_question Software_Engineer [] Behavioral 2 = ''Why do you want this job?''"
  by (simp_all add: generate_question_def selected_template_def question_index_mod5
      question_templates_def)

lemma sample_start:
  "interaction llm (sample_inputs n) Start_Practice init_session = sample_started"
  by (simp add: interaction_start init_session_def sample_inputs_def sample_questions
      sample_started_def)

lemma extract_score_sample: "extract_score ''Score: 9/10\<newline>Clear and concise.'' = 9"
  by code_simp

lemma evaluate_sample:
  "evaluate_answer sample_llm a q m = ''Score: 9/10\<newline>Clear and concise.''"
  by (simp add: evaluate_answer_def sample_llm_def)

lemma sample_submit:
  "interaction sample_llm (sample_inputs n) Submit sample_started =
     (if 1 < n then sample_second else sample_second\<lparr>question := None\<rparr>)"
proof -
  have q: "question sample_started = Some ''Tell me about yourself.''"
    by (simp add: sample_started_def)
  show ?thesis
    unfolding interaction_submit [OF q _ sample_answer_not_blank, simplified]
      evaluate_sample extract_score_sample
    by (simp add: next_or_finish_def sample_inputs_def sample_questions sample_started_def
        sample_second_def sample_result_def)
qed

lemma sample_skip:
  "interaction llm (sample_inputs n) Skip sample_second =
     (if 2 < n then sample_third else sample_third\<lparr>question := None\<rparr>)"
proof -
  have q: "question sample_second = Some ''What's your greatest professional strength?''"
    by (simp add: sample_second_def)
  show ?thesis
    unfolding interaction_skip [OF q, simplified]
    by (simp add: next_or_finish_def sample_inputs_def sample_questions sample_second_def
        sample_third_def)
qed

lemma sample_skip_first:
  "interaction llm (sample_inputs 1) Skip sample_started = \<lparr>question = None, asked = 1, score = []\<rparr>"
proof -
  have q: "question sample_started = Some ''Tell me about yourself.''"
    by (simp add: sample_started_def)
  show ?thesis
    unfolding interaction_skip [OF q, simplified]
    by (simp add: next_or_finish_def sample_inputs_def sample_started_def)
qed

subsection \<open>Submitting\<close>

text \<open>
  Claim C6. A submit with an empty or whitespace-only answer leaves the whole
  session state as it was: \<^verbatim>\<open>asked\<close>, \<^verbatim>\<open>score\<close> and \<^verbatim>\<open>question\<close> keep their values, so
  a pending question stays pending and no result is created.
\<close>

theorem blank_submit_no_change:
  assumes "\<forall>c\<in>set (user_answer w). is_space c"
  shows "interaction llm w Submit s = s"
  using assms by (simp add: interaction_submit_blank strip_empty_iff)

theorem blank_submit_no_change_witness:
  "list_all is_space (user_answer ((sample_inputs 2)\<lparr>user_answer := ''  \<newline>''\<rparr>)) \<and>
   interaction sample_llm ((sample_inputs 2)\<lparr>user_answer := ''  \<newline>''\<rparr>) Submit sample_started
     = sample_started"
proof -
  have h: "\<forall>c\<in>set (user_answer ((sample_inputs 2)\<lparr>user_answer := ''  \<newline>''\<rparr>)). is_space c"
    by (simp add: is_space_def)
  show ?thesis
    using h blank_submit_no_change [OF h, of sample_llm sample_started]
    by (simp add: list_all_iff)
qed

text \<open>
  Claim C1. On a submit with an answer that is not blank, while a question \<open>q\<close> is
  pending (the stored question is never the empty text, lemma
  \<open>generate_question_nonempty\<close>), the controller evaluates the answer, extracts the
  score from the feedback, appends exactly one result made of the question, the
  answer, the feedback and the score, and adds one to \<^verbatim>\<open>asked\<close>; the new count is
  then compared with \<^verbatim>\<open>num_questions\<close>: below it, the question generated for the new
  count is stored, otherwise the stored question is cleared.
\<close>

theorem submit_records_result:
  assumes "question s = Some q" and "q \<noteq> []" and "strip (user_answer w) \<noteq> []"
  shows "score (interaction llm w Submit s) =
           score s @ [\<lparr>res_question = q, res_answer = user_answer w,
                       res_feedback = evaluate_answer llm (user_answer w) q (mode w),
                       res_score = extract_score (evaluate_answer llm (user_answer w) q (mode w))\<rparr>] \<and>
         asked (interaction llm w Submit s) = asked s + 1 \<and>
         question (interaction llm w Submit s) =
           (if asked s + 1 < num_questions w
            then Some (generate_question (role w) (domain w) (mode w) (asked s + 1))
            else None)"
  using assms by (simp add: interaction_submit next_or_finish_def)

theorem submit_records_result_witness:
  "question sample_started = Some ''Tell me about yourself.'' \<and>
   ''Tell me about yourself.'' \<noteq> [] \<and>
   strip (user_answer (sample_inputs 2)) \<noteq> [] \<and>
   score (interaction sample_llm (sample_inputs 2) Submit sample_started) = [sample_result] \<and>
   asked (interaction sample_llm (sample_inputs 2) Submit sample_started) = 1 \<and>
   question (interaction sample_llm (sample_inputs 2) Submit sample_started)
     = Some ''What's your greatest professional strength?''"
proof -
  have h1: "question sample_started = Some ''Tell me about yourself.''"
    by (simp add: sample_started_def)
  have h2: "''Tell me about yourself.'' \<noteq> []" by simp
  note h3 = sample_answer_not_blank [of 2]
  show ?thesis
    using h1 h3 submit_records_result [OF h1 h2 h3, of sample_llm]
    by (simp add: evaluate_sample extract_score_sample sample_inputs_def sample_questions
        sample_started_def sample_result_def)
qed

lemma extract_score_fallback: "extract_score fallback_feedback = 7"
  by code_simp

text \<open>
  Claim C10. The score extracted from the fallback text of the evaluator is 7, the
  value \<^const>\<open>extract_score\<close> also returns when nothing matches; so the result
  appended by a submit whose model call failed carries the fallback text and the
  score 7.
\<close>

theorem failed_call_scores_default:
  assumes "llm (build_prompt q (user_answer w)) = Inl e"
      and "question s = Some q" and "q \<noteq> []" and "strip (user_answer w) \<noteq> []"
  shows "extract_score fallback_feedback = 7 \<and>
         extract_score fallback_feedback = default_score \<and>
         res_feedback (last (score (interaction llm w Submit s))) = fallback_feedback \<and>
         res_score (last (score (interaction llm w Submit s))) = 7"
proof -
  have "evaluate_answer llm (user_answer w) q (mode w) = fallback_feedback"
    using assms(1) by (simp add: evaluate_answer_def)
  then show ?thesis
    using assms(2-4)
    by (simp add: interaction_submit next_or_finish_def extract_score_fallback default_score_def)
qed

theorem failed_call_scores_default_witness:
  "failing_llm (build_prompt ''Tell me about yourself.'' (user_answer (sample_inputs 2)))
     = Inl (Exception ''quota exceeded'') \<and>
   question sample_started = Some ''Tell me about yourself.'' \<and>
   ''Tell me about yourself.'' \<noteq> [] \<and>
   strip (user_answer (sample_inputs 2)) \<noteq> [] \<and>
   extract_score fallback_feedback = 7 \<and>
   res_score (last (score (interaction failing_llm (sample_inputs 2) Submit sample_started))) = 7"
proof -
  have h1: "failing_llm (build_prompt ''Tell me about yourself.'' (user_answer (sample_inputs 2)))
              = Inl (Exception ''quota exceeded'')"
    by (simp add: failing_llm_def)
  have h2: "question sample_started = Some ''Tell me about yourself.''"
    by (simp add: sample_started_def)
  have h3: "''Tell me about yourself.'' \<noteq> []" by simp
  note h4 = sample_answer_not_blank [of 2]
  show ?thesis
    using h1 h2 h4
      failed_call_scores_default [where llm = failing_llm and w = "sample_inputs 2"
        and q = "''Tell me about yourself.''" and s = sample_started
        and e = "Exception ''quota exceeded''"]
    by simp
qed

subsection \<open>Invariants\<close>

lemma run_invariant_step:
  assumes "run_invariant n s" "num_questions w = n" "1 \<le> n"
  shows "run_invariant n (interaction llm w b s)"
  using assms
  by (cases b)
     (auto simp: run_invariant_def interaction_pass pass_def main_block_def start_run_def
      on_submit_def on_skip_def next_or_finish_def truthy_def init_session_def Let_def
      shows_results_def split: option.splits if_splits)

lemma length_le_asked_step:
  assumes "int (length (score s)) \<le> asked s"
  shows "int (length (score (interaction llm w b s))) \<le> asked (interaction llm w b s)"
  using assms
  by (cases b)
     (auto simp: interaction_pass pass_def main_block_def start_run_def on_submit_def
      on_skip_def next_or_finish_def truthy_def init_session_def Let_def shows_results_def
      split: option.splits if_splits)

lemma run_invariant_reachable_fixed:
  assumes "1 \<le> n" "reachable_fixed n s"
  shows "run_invariant n s"
  using assms(2)
proof (induction rule: reachable_fixed.induct)
  case fixed_init
  from assms(1) show ?case by (simp add: run_invariant_def init_session_def)
next
  case (fixed_step s w llm b)
  then show ?case using assms(1) by (simp add: run_invariant_step)
qed

lemma length_le_asked_reachable:
  assumes "reachable s"
  shows "int (length (score s)) \<le> asked s"
  using assms
proof (induction rule: reachable.induct)
  case reachable_init
  show ?case by (simp add: init_session_def)
next
  case (reachable_step s w llm b)
  then show ?case by (simp add: length_le_asked_step)
qed

lemma interactions_slider_moved: "interactions slider_moved init_session = sample_third"
proof -
  have "interaction sample_llm (sample_inputs 1) No_Button sample_third = sample_third"
    by (simp add: interaction_pass pass_No_Button)
  then show ?thesis
    by (simp add: slider_moved_def sample_start sample_submit sample_skip)
qed

text \<open>
  Claim C3, as stated: in every reachable session state \<^verbatim>\<open>asked\<close> is at most
  \<^verbatim>\<open>num_questions\<close>, and a state with \<^verbatim>\<open>asked\<close> at or above \<^verbatim>\<open>num_questions\<close> and some
  result has no question stored. The slider is read anew in every run: after a
  submit and a skip in a run of three questions it is moved to 1, and the state then
  has \<^verbatim>\<open>asked = 2\<close>, one result and a pending question.
\<close>

theorem slider_moved_counterexample:
  "reachable (interactions slider_moved init_session) \<and>
   valid_inputs (sample_inputs 1) \<and>
   snd (last slider_moved) = (sample_inputs 1, No_Button) \<and>
   \<not> asked (interactions slider_moved init_session) \<le> num_questions (sample_inputs 1) \<and>
   score (interactions slider_moved init_session) \<noteq> [] \<and>
   question (interactions slider_moved init_session) \<noteq> None"
proof -
  have v: "valid_inputs (sample_inputs 3)" "valid_inputs (sample_inputs 1)"
    by (simp_all add: valid_inputs_def sample_inputs_def)
  have "reachable (interaction sample_llm (sample_inputs 1) No_Button
          (interaction sample_llm (sample_inputs 3) Skip
            (interaction sample_llm (sample_inputs 3) Submit
              (interaction sample_llm (sample_inputs 3) Start_Practice init_session))))"
    by (intro reachable_step reachable_init v)
  then have r: "reachable (interactions slider_moved init_session)"
    by (simp add: slider_moved_def)
  have l: "snd (last slider_moved) = (sample_inputs 1, No_Button)"
    by (simp add: slider_moved_def)
  have a: "\<not> asked (interactions slider_moved init_session) \<le> num_questions (sample_inputs 1)"
    by (simp add: interactions_slider_moved sample_third_def sample_inputs_def)
  have s: "score (interactions slider_moved init_session) \<noteq> []"
    by (simp add: interactions_slider_moved sample_third_def)
  have q: "question (interactions slider_moved init_session) \<noteq> None"
    by (simp add: interactions_slider_moved sample_third_def)
  from r v(2) l a s q show ?thesis by blast
qed

text \<open>
  Claim C3, amended. In every reachable session state the number of results is at
  most \<^verbatim>\<open>asked\<close>. In every session state reachable while \<^verbatim>\<open>num_questions\<close> stays at
  one value \<open>n\<close> of the slider, also \<^verbatim>\<open>asked\<close> is at most \<open>n\<close>, and whenever \<^verbatim>\<open>asked\<close> is
  at or above \<open>n\<close> no question is stored (with or without results).
\<close>

theorem session_invariant:
  "(reachable s \<longrightarrow> int (length (score s)) \<le> asked s) \<and>
   (1 \<le> n \<and> reachable_fixed n s \<longrightarrow>
      asked s \<le> n \<and> int (length (score s)) \<le> asked s \<and>
      (n \<le> asked s \<longrightarrow> question s = None))"
  using length_le_asked_reachable [of s] run_invariant_reachable_fixed [of n s]
  by (auto simp: run_invariant_def)

theorem session_invariant_witness:
  "reachable (sample_third\<lparr>question := None\<rparr>) \<and>
   (1::int) \<le> 2 \<and> reachable_fixed 2 (sample_third\<lparr>question := None\<rparr>) \<and>
   asked (sample_third\<lparr>question := None\<rparr>) \<le> 2 \<and>
   int (length (score (sample_third\<lparr>question := None\<rparr>))) \<le> asked (sample_third\<lparr>question := None\<rparr>) \<and>
   2 \<le> asked (sample_third\<lparr>question := None\<rparr>) \<and>
   question (sample_third\<lparr>question := None\<rparr>) = None"
proof -
  have eq: "interaction sample_llm (sample_inputs 2) Skip
          (interaction sample_llm (sample_inputs 2) Submit
            (interaction sample_llm (sample_inputs 2) Start_Practice init_session))
        = sample_third\<lparr>question := None\<rparr>"
    by (simp add: sample_start sample_submit sample_skip)
  have v: "valid_inputs (sample_inputs 2)" "num_questions (sample_inputs 2) = 2"
    by (simp_all add: valid_inputs_def sample_inputs_def)
  have r: "reachable (sample_third\<lparr>question := None\<rparr>)"
    unfolding eq [symmetric] by (intro reachable_step reachable_init v)
  have f: "reachable_fixed 2 (sample_third\<lparr>question := None\<rparr>)"
    unfolding eq [symmetric] by (intro fixed_step fixed_init v)
  have a: "2 \<le> asked (sample_third\<lparr>question := None\<rparr>)"
    by (simp add: sample_third_def)
  show ?thesis
    using r f a session_invariant [of "sample_third\<lparr>question := None\<rparr>" 2]
    by simp
qed

subsection \<open>A whole run\<close>

lemma answering_step:
  assumes "answering (llm, w, b)" "question s = Some q" "q \<noteq> []" "num_questions w = n"
  shows "asked (interaction llm w b s) = asked s + 1 \<and>
         length (score (interaction llm w b s))
           = length (score s) + (if is_submit (llm, w, b) then 1 else 0) \<and>
         (if asked s + 1 < n then (\<exists>q'. question (interaction llm w b s) = Some q' \<and> q' \<noteq> [])
          else question (interaction llm w b s) = None)"
  using assms
  by (auto simp: answering_def is_submit_def interaction_submit interaction_skip next_or_finish_def
      generate_question_nonempty)

text \<open>
  The state after any number of answering interactions that stays within the
  \<open>n\<close> questions of the run: by induction on the list, for every starting state.
\<close>

lemma run_progress:
  assumes "\<forall>ev\<in>set evs. answering ev \<and> num_questions (fst (snd ev)) = n"
      and "asked s + int (length evs) \<le> n"
      and "evs \<noteq> [] \<longrightarrow> (\<exists>q. question s = Some q \<and> q \<noteq> [])"
  shows "asked (interactions evs s) = asked s + int (length evs) \<and>
         length (score (interactions evs s)) = length (score s) + length (filter is_submit evs) \<and>
         (evs \<noteq> [] \<and> asked s + int (length evs) = n \<longrightarrow> question (interactions evs s) = None)"
  using assms
proof (induction evs arbitrary: s)
  case Nil
  then show ?case by simp
next
  case (Cons ev evs)
  obtain llm w b where ev: "ev = (llm, w, b)" by (cases ev) auto
  from Cons.prems(3) obtain q where q: "question s = Some q" "q \<noteq> []" by auto
  from Cons.prems(1) ev have a: "answering (llm, w, b)" and n: "num_questions w = n" by auto
  let ?s1 = "interaction llm w b s"
  note st = answering_step [OF a q n]
  have 1: "\<forall>e\<in>set evs. answering e \<and> num_questions (fst (snd e)) = n"
    using Cons.prems(1) by simp
  have 2: "asked ?s1 + int (length evs) \<le> n"
    using st Cons.prems(2) by simp
  have 3: "evs \<noteq> [] \<longrightarrow> (\<exists>q. question ?s1 = Some q \<and> q \<noteq> [])"
  proof
    assume "evs \<noteq> []"
    then have "1 \<le> int (length evs)" by (cases evs) simp_all
    with Cons.prems(2) have "asked s + 1 < n" by simp
    with st show "\<exists>q. question ?s1 = Some q \<and> q \<noteq> []" by simp
  qed
  note IH = Cons.IH [OF 1 2 3]
  show ?case
  proof (cases "evs = []")
    case True
    with st Cons.prems(2) show ?thesis
      by (auto simp: ev)
  next
    case False
    with IH st show ?thesis
      by (auto simp: ev)
  qed
qed

lemma interactions_all_skipped:
  "interactions all_skipped (interaction sample_llm (sample_inputs 1) Start_Practice init_session)
     = \<lparr>question = None, asked = 1, score = []\<rparr>"
  by (simp add: all_skipped_def sample_start sample_skip_first)

text \<open>
  Claim C2, as stated: after \<^verbatim>\<open>num_questions\<close> submit-or-skip actions the session is in
  the state \<^verbatim>\<open>COMPLETE\<close>. A run of one question that is skipped ends with no question
  stored and \<^verbatim>\<open>asked = 1\<close>, but with no result: the state is not \<^verbatim>\<open>COMPLETE\<close>, and
  the condition of the results block is false.
\<close>

theorem all_skipped_counterexample:
  "question init_session = None \<and>
   int (length all_skipped) = num_questions (sample_inputs 1) \<and>
   list_all answering all_skipped \<and>
   \<not> complete (sample_inputs 1)
       (interactions all_skipped
          (interaction sample_llm (sample_inputs 1) Start_Practice init_session)) \<and>
   \<not> shows_results (sample_inputs 1)
       (interactions all_skipped
          (interaction sample_llm (sample_inputs 1) Start_Practice init_session))"
proof -
  have "list_all answering all_skipped"
    by (simp add: all_skipped_def answering_def)
  moreover have "int (length all_skipped) = num_questions (sample_inputs 1)"
    by (simp add: all_skipped_def sample_inputs_def)
  moreover have "question init_session = None"
    by (simp add: init_session_def)
  ultimately show ?thesis
    unfolding interactions_all_skipped
    by (simp add: complete_def shows_results_def)
qed

text \<open>
  Claim C2, amended. Take a run started by \<^verbatim>\<open>Start Practice\<close> from a state with no
  question stored, with \<^verbatim>\<open>num_questions\<close> equal to \<open>n\<close> at the start and in every later
  interaction. After exactly \<open>n\<close> interactions, each a skip or a submit of an answer
  that is not blank, no question is stored, \<^verbatim>\<open>asked\<close> is \<open>n\<close>, and the number of results
  is the number of submits; the session is in the state \<^verbatim>\<open>COMPLETE\<close> exactly when at
  least one of the interactions was a submit.
\<close>

theorem run_ends_after_num_questions:
  assumes "question s0 = None" and "1 \<le> n" and "num_questions w0 = n"
      and "int (length evs) = n"
      and "\<forall>ev\<in>set evs. answering ev \<and> num_questions (fst (snd ev)) = n"
  shows "question (interactions evs (interaction llm0 w0 Start_Practice s0)) = None \<and>
         asked (interactions evs (interaction llm0 w0 Start_Practice s0)) = n \<and>
         length (score (interactions evs (interaction llm0 w0 Start_Practice s0)))
           = length (filter is_submit evs) \<and>
         (complete w0 (interactions evs (interaction llm0 w0 Start_Practice s0))
            \<longleftrightarrow> filter is_submit evs \<noteq> [])"
proof -
  let ?s = "interaction llm0 w0 Start_Practice s0"
  have s: "?s = \<lparr>question = Some (generate_question (role w0) (domain w0) (mode w0) 0),
                 asked = 0, score = []\<rparr>"
    using assms(1) by (rule interaction_start)
  have ne: "evs \<noteq> []" using assms(2,4) by auto
  have "asked (interactions evs ?s) = asked ?s + int (length evs) \<and>
        length (score (interactions evs ?s)) = length (score ?s) + length (filter is_submit evs) \<and>
        (evs \<noteq> [] \<and> asked ?s + int (length evs) = n \<longrightarrow> question (interactions evs ?s) = None)"
    by (rule run_progress [OF assms(5)]) (simp_all add: s assms(4) generate_question_nonempty)
  then have "asked (interactions evs ?s) = n"
    and "length (score (interactions evs ?s)) = length (filter is_submit evs)"
    and "question (interactions evs ?s) = None"
    using ne assms(4) by (simp_all add: s)
  moreover from this
  have "score (interactions evs ?s) \<noteq> [] \<longleftrightarrow> filter is_submit evs \<noteq> []"
    by (metis length_0_conv)
  ultimately show ?thesis
    using assms(3) by (simp add: complete_def)
qed

theorem run_ends_after_num_questions_witness:
  "question init_session = None \<and> (1::int) \<le> 2 \<and> num_questions (sample_inputs 2) = 2 \<and>
   int (length sample_run) = 2 \<and>
   list_all answering sample_run \<and>
   list_all (\<lambda>ev. num_questions (fst (snd ev)) = 2) sample_run \<and>
   question (interactions sample_run
              (interaction sample_llm (sample_inputs 2) Start_Practice init_session)) = None \<and>
   asked (interactions sample_run
              (interaction sample_llm (sample_inputs 2) Start_Practice init_session)) = 2 \<and>
   length (score (interactions sample_run
              (interaction sample_llm (sample_inputs 2) Start_Practice init_session))) = 1 \<and>
   complete (sample_inputs 2) (interactions sample_run
              (interaction sample_llm (sample_inputs 2) Start_Practice init_session))"
proof -
  have h1: "question init_session = None" by (simp add: init_session_def)
  have h2: "(1::int) \<le> 2" by simp
  have h3: "num_questions (sample_inputs 2) = 2" by (simp add: sample_inputs_def)
  have h4: "int (length sample_run) = 2" by (simp add: sample_run_def)
  have a: "list_all answering sample_run"
    using sample_answer_not_blank [of 2] by (simp add: sample_run_def answering_def)
  have b: "list_all (\<lambda>ev. num_questions (fst (snd ev)) = 2) sample_run"
    by (simp add: sample_run_def sample_inputs_def)
  have h5: "\<forall>ev\<in>set sample_run. answering ev \<and> num_questions (fst (snd ev)) = 2"
    using a b by (simp add: list_all_iff)
  have f: "filter is_submit sample_run = [(sample_llm, sample_inputs 2, Submit)]"
    by (simp add: sample_run_def is_submit_def)
  show ?thesis
    using run_ends_after_num_questions [OF h1 h2 h3 h4 h5, of sample_llm] h1 h2 h3 h4 a b
    by (simp add: f)
qed

end
